theory Spec2Isabelle
  imports Complex_Main "HOL-Library.Word" "HOL-Library.AList"
begin

section \<open>Data model (internal/telemetry/models/models.go)\<close>

text \<open>
  A Go \<^verbatim>\<open>time.Time\<close> is modelled as the number of nanoseconds since Go's zero instant
  (January 1, year 1, 00:00 UTC), so that \<^verbatim>\<open>IsZero\<close> is equality with 0 and \<^verbatim>\<open>After\<close> is
  the strict order. A \<^verbatim>\<open>float64\<close> field is modelled as a real number: the functions below
  only copy such fields or compare them with constants. An \<^verbatim>\<open>int64\<close> is a 64-bit word,
  read as a signed number with \<open>sint\<close>.
\<close>

type_synonym time = int

definition IsZero :: "time \<Rightarrow> bool" where
  "IsZero t = (t = 0)"

definition After :: "time \<Rightarrow> time \<Rightarrow> bool" where
  "After t u = (u < t)"

type_synonym int64 = "64 word"

type_synonym MetricType = string

definition MetricBandwidth :: MetricType where
  "MetricBandwidth = ''bandwidth_mbps''"

definition MetricLatency :: MetricType where
  "MetricLatency = ''latency_ms''"

definition MetricPacketErrors :: MetricType where
  "MetricPacketErrors = ''packet_errors''"

definition MetricUtilization :: MetricType where
  "MetricUtilization = ''utilization_pct''"

definition MetricTemperature :: MetricType where
  "MetricTemperature = ''temperature_c''"

record TelemetryData =
  ID :: int64
  SwitchID :: string
  Timestamp :: time
  BandwidthMbps :: real
  LatencyMs :: real
  PacketErrors :: int64
  UtilizationPct :: real
  TemperatureC :: real
  CreatedAt :: time

text \<open>
  The errors the modelled functions build with \<^verbatim>\<open>fmt.Errorf\<close>, one constructor per
  message; \<open>Wrapped\<close> is a \<^verbatim>\<open>%w\<close> wrapping with its prefix. \<open>RepoError\<close> is whatever
  the repository returns: the repository is an interface, and the kind carried here is
  the classification of section 7 of the specification, which no function below inspects.
\<close>

datatype repo_error_kind = TransientIO | FatalIO

datatype err =
    EmptySwitchID
  | SwitchNotFound string
  | UnknownMetricType string
  | NoValidTelemetryData
  | AlreadyStarted
  | NotStarted
  | CtxErr
  | RepoError repo_error_kind
  | WriteFailedAfter int "err option"
  | BandwidthNegative
  | LatencyNegative
  | PacketErrorsNegative
  | UtilizationOutOfRange
  | Wrapped string err

text \<open>The \<^verbatim>\<open>interface{}\<close> that \<^verbatim>\<open>GetMetricValue\<close> returns holds a float64 or an int64.\<close>

datatype metric_value = Float64 real | Int64 int64

definition GetMetricValue :: "TelemetryData \<Rightarrow> MetricType \<Rightarrow> err + metric_value" where
  "GetMetricValue td metricType =
     (if metricType = MetricBandwidth then Inr (Float64 (BandwidthMbps td))
      else if metricType = MetricLatency then Inr (Float64 (LatencyMs td))
      else if metricType = MetricPacketErrors then Inr (Int64 (PacketErrors td))
      else if metricType = MetricUtilization then Inr (Float64 (UtilizationPct td))
      else if metricType = MetricTemperature then Inr (Float64 (TemperatureC td))
      else Inl (UnknownMetricType metricType))"

section \<open>The in-memory cache (internal/telemetry/storage/cache.go)\<close>

text \<open>
  The two Go maps of the cache are partial functions. Every reading of \<^verbatim>\<open>time.Now()\<close> is
  an argument of the function that takes it, in the order the source takes them. A Go map
  passed as an argument and ranged over (\<^verbatim>\<open>UpdateBatch\<close>) is an association list: the list
  order is the order in which the runtime happens to visit the keys.
\<close>

record InMemoryCache =
  data :: "string \<rightharpoonup> TelemetryData"
  lastUpdated :: "string \<rightharpoonup> time"
  requestCount :: int64
  hitCount :: int64

definition NewInMemoryCache :: InMemoryCache where
  "NewInMemoryCache =
     \<lparr>data = Map.empty, lastUpdated = Map.empty, requestCount = 0, hitCount = 0\<rparr>"

text \<open>The copy both update functions store: the key as switch id, a zero timestamp replaced.\<close>

definition dataCopy :: "string \<Rightarrow> TelemetryData \<Rightarrow> time \<Rightarrow> TelemetryData" where
  "dataCopy switchID td now =
     (let c = td\<lparr>SwitchID := switchID\<rparr>
      in if IsZero (Timestamp c) then c\<lparr>Timestamp := now\<rparr> else c)"

definition InMemoryCache_UpdateMetrics ::
  "string \<Rightarrow> TelemetryData \<Rightarrow> time \<Rightarrow> time \<Rightarrow> InMemoryCache \<Rightarrow> err option \<times> InMemoryCache" where
  "InMemoryCache_UpdateMetrics switchID td now1 now2 c =
     (if switchID = [] then (Some EmptySwitchID, c)
      else (None, c\<lparr>data := (data c)(switchID \<mapsto> dataCopy switchID td now1),
                     lastUpdated := (lastUpdated c)(switchID \<mapsto> now2)\<rparr>))"

definition UpdateBatch_step :: "time \<Rightarrow> string \<times> TelemetryData \<Rightarrow> InMemoryCache \<Rightarrow> InMemoryCache" where
  "UpdateBatch_step now kv c =
     (if fst kv = [] then c
      else c\<lparr>data := (data c)(fst kv \<mapsto> dataCopy (fst kv) (snd kv) now),
              lastUpdated := (lastUpdated c)(fst kv \<mapsto> now)\<rparr>)"

definition InMemoryCache_UpdateBatch ::
  "(string \<times> TelemetryData) list \<Rightarrow> time \<Rightarrow> InMemoryCache \<Rightarrow> err option \<times> InMemoryCache" where
  "InMemoryCache_UpdateBatch batch now c =
     (if length batch = 0 then (None, c)
      else (None, fold (UpdateBatch_step now) batch c))"

definition InMemoryCache_GetMetric ::
  "string \<Rightarrow> MetricType \<Rightarrow> InMemoryCache \<Rightarrow> (err + metric_value) \<times> InMemoryCache" where
  "InMemoryCache_GetMetric switchID metricType c =
     (let c1 = c\<lparr>requestCount := requestCount c + 1\<rparr>
      in case data c1 switchID of
           None \<Rightarrow> (Inl (SwitchNotFound switchID), c1)
         | Some td \<Rightarrow> (GetMetricValue td metricType, c1\<lparr>hitCount := hitCount c1 + 1\<rparr>))"

definition InMemoryCache_GetLastUpdate :: "string \<Rightarrow> InMemoryCache \<Rightarrow> time" where
  "InMemoryCache_GetLastUpdate switchID c =
     (case lastUpdated c switchID of Some lastUpdate \<Rightarrow> lastUpdate | None \<Rightarrow> 0)"

text \<open>A sequence of cache writes, run from the empty cache.\<close>

datatype cache_op =
    OpUpdateMetrics string TelemetryData time time
  | OpUpdateBatch "(string \<times> TelemetryData) list" time

fun cache_apply :: "cache_op \<Rightarrow> InMemoryCache \<Rightarrow> InMemoryCache" where
  "cache_apply (OpUpdateMetrics switchID td now1 now2) c =
     snd (InMemoryCache_UpdateMetrics switchID td now1 now2 c)"
| "cache_apply (OpUpdateBatch batch now) c = snd (InMemoryCache_UpdateBatch batch now c)"

fun op_clock_ok :: "cache_op \<Rightarrow> bool" where
  "op_clock_ok (OpUpdateMetrics switchID td now1 now2) = (\<not> IsZero now1 \<and> \<not> IsZero now2)"
| "op_clock_ok (OpUpdateBatch batch now) = (\<not> IsZero now)"

definition cache_run :: "cache_op list \<Rightarrow> InMemoryCache" where
  "cache_run ops = fold cache_apply ops NewInMemoryCache"

definition cache_inv :: "InMemoryCache \<Rightarrow> bool" where
  "cache_inv c =
     (\<forall>k td. data c k = Some td \<longrightarrow> \<not> IsZero (Timestamp td) \<and> SwitchID td \<noteq> [] \<and> SwitchID td = k)"

section \<open>The hybrid store (internal/telemetry/storage/hybrid.go)\<close>

text \<open>
  The store's state is the struct's fields. The repository is an interface to a database:
  its state is the list of telemetry rows it has stored, and what one call of
  \<^verbatim>\<open>StoreMetrics\<close> (or \<^verbatim>\<open>BulkStoreMetrics\<close>) returns is an input of the model. The
  buffered channel \<^verbatim>\<open>flushQueue\<close> is the list of the batches it holds, oldest first, with
  the capacity \<^verbatim>\<open>NewHybridStore\<close> gives it. \<^verbatim>\<open>hs.ctx\<close> is \<open>None\<close> while nil, and afterwards
  says whether the context is done; \<^verbatim>\<open>cancel\<close> says whether \<^verbatim>\<open>hs.cancel\<close> is non-nil; \<^verbatim>\<open>wg\<close>
  counts the background workers that have not returned. Log lines and the Prometheus
  counters of package \<^verbatim>\<open>metrics\<close> are not part of the state.
\<close>

record HybridStoreConfig =
  FlushInterval :: int
  BatchSize :: int
  CacheTTL :: int
  MaxRetries :: int

definition Second :: int where
  "Second = 1000000000"

definition DefaultHybridStoreConfig :: HybridStoreConfig where
  "DefaultHybridStoreConfig =
     \<lparr>FlushInterval = 30 * Second, BatchSize = 100, CacheTTL = 5 * 60 * Second, MaxRetries = 3\<rparr>"

datatype ctx_state = CtxLive | CtxDone

record HybridStore =
  cache :: InMemoryCache
  repository :: "TelemetryData list"
  config :: HybridStoreConfig
  ctx :: "ctx_state option"
  cancel :: bool
  wg :: nat
  flushQueue :: "TelemetryData list list"
  totalRequests :: int64
  totalCacheHits :: int64
  totalDBWrites :: int64
  totalDBWriteErrors :: int64
  lastFlushTime :: time
  startTime :: time
  pendingFlushItems :: int64

definition flushQueueCap :: nat where
  "flushQueueCap = 100"

definition NewHybridStore :: "InMemoryCache \<Rightarrow> TelemetryData list \<Rightarrow> HybridStoreConfig \<Rightarrow> time \<Rightarrow> HybridStore" where
  "NewHybridStore c repo cfg now =
     \<lparr>cache = c, repository = repo, config = cfg, ctx = None, cancel = False, wg = 0,
      flushQueue = [], totalRequests = 0, totalCacheHits = 0, totalDBWrites = 0,
      totalDBWriteErrors = 0, lastFlushTime = 0, startTime = now, pendingFlushItems = 0\<rparr>"

definition incrementRequestCount :: "HybridStore \<Rightarrow> HybridStore" where
  "incrementRequestCount hs = hs\<lparr>totalRequests := totalRequests hs + 1\<rparr>"

definition incrementCacheHit :: "HybridStore \<Rightarrow> HybridStore" where
  "incrementCacheHit hs = hs\<lparr>totalCacheHits := totalCacheHits hs + 1\<rparr>"

subsection \<open>Start and Stop\<close>

text \<open>
  \<^verbatim>\<open>Start\<close> derives \<^verbatim>\<open>hs.ctx\<close> from its caller's context (\<open>parent\<close> says whether that one is
  done already) and starts three workers. \<^verbatim>\<open>Stop\<close> cancels, then waits in a \<^verbatim>\<open>select\<close> for
  the workers or for its caller's context, whichever comes first: \<open>workersFirst\<close> is that
  outcome. A worker returns once \<^verbatim>\<open>hs.ctx\<close> is done; \<open>workersExit\<close> is the moment the last
  one has. What the flush worker writes while it drains the queue, and the closing of the
  database connection at the end of \<^verbatim>\<open>Stop\<close>, are not modelled here.
\<close>

definition HybridStore_Start :: "ctx_state \<Rightarrow> time \<Rightarrow> HybridStore \<Rightarrow> err option \<times> HybridStore" where
  "HybridStore_Start parent now hs =
     (if ctx hs \<noteq> None then (Some AlreadyStarted, hs)
      else (None, hs\<lparr>ctx := Some parent, cancel := True, startTime := now, wg := wg hs + 3\<rparr>))"

definition workersExit :: "HybridStore \<Rightarrow> HybridStore" where
  "workersExit hs = (if ctx hs = Some CtxDone then hs\<lparr>wg := 0\<rparr> else hs)"

definition HybridStore_Stop :: "bool \<Rightarrow> HybridStore \<Rightarrow> err option \<times> HybridStore" where
  "HybridStore_Stop workersFirst hs =
     (if \<not> cancel hs then (Some NotStarted, hs)
      else (let hs1 = hs\<lparr>ctx := Some CtxDone\<rparr>
            in if workersFirst then (None, workersExit hs1) else (Some CtxErr, hs1)))"

datatype lifecycle = Created | Started | Stopping | Stopped

definition lifecycle_of :: "HybridStore \<Rightarrow> lifecycle" where
  "lifecycle_of hs =
     (case ctx hs of
        None \<Rightarrow> Created
      | Some CtxLive \<Rightarrow> Started
      | Some CtxDone \<Rightarrow> (if 0 < wg hs then Stopping else Stopped))"

fun lifecycle_rank :: "lifecycle \<Rightarrow> nat" where
  "lifecycle_rank Created = 0"
| "lifecycle_rank Started = 1"
| "lifecycle_rank Stopping = 2"
| "lifecycle_rank Stopped = 3"

datatype lifecycle_op = OpStart ctx_state time | OpStop bool | OpWorkersExit

fun lifecycle_apply :: "lifecycle_op \<Rightarrow> HybridStore \<Rightarrow> HybridStore" where
  "lifecycle_apply (OpStart parent now) hs = snd (HybridStore_Start parent now hs)"
| "lifecycle_apply (OpStop workersFirst) hs = snd (HybridStore_Stop workersFirst hs)"
| "lifecycle_apply OpWorkersExit hs = workersExit hs"

subsection \<open>Writes\<close>

definition HybridStore_UpdateMetrics ::
  "string \<Rightarrow> TelemetryData \<Rightarrow> time \<Rightarrow> time \<Rightarrow> HybridStore \<Rightarrow> err option \<times> HybridStore" where
  "HybridStore_UpdateMetrics switchID td now1 now2 hs =
     (case InMemoryCache_UpdateMetrics switchID td now1 now2 (cache hs) of
        (Some e, c) \<Rightarrow> (Some (Wrapped ''failed to update cache'' e), hs\<lparr>cache := c\<rparr>)
      | (None, c) \<Rightarrow>
          (let hs1 = hs\<lparr>cache := c\<rparr>;
               hs2 = (if length (flushQueue hs1) < flushQueueCap
                      then hs1\<lparr>flushQueue := flushQueue hs1 @ [[td]],
                               pendingFlushItems := pendingFlushItems hs1 + 1\<rparr>
                      else hs1)
           in (None, incrementRequestCount hs2)))"


text \<open>
  \<^verbatim>\<open>writeToDatabase\<close>. What the surroundings do at attempt \<open>n\<close> is \<open>env n\<close>: whether the
  context is done at the check before the write, what the repository returns, and whether
  the context is done before the backoff timer fires. The function returns, with the error
  and the store, the trace of its repository calls and backoff waits. The backoff is
  \<^verbatim>\<open>time.Duration(attempt) * time.Second\<close>, a product of 64-bit integers. The attempt
  counter itself is an unbounded integer here: it runs up to \<^verbatim>\<open>MaxRetries\<close> plus one, which
  is a 64-bit integer unless \<^verbatim>\<open>MaxRetries\<close> is the largest one.
\<close>

record attempt_env =
  ctxDoneBefore :: bool
  storeResult :: "err option"
  ctxDoneInBackoff :: bool

datatype write_event = StoreCall int | BackoffWait int | BackoffAborted int

definition backoff :: "int \<Rightarrow> int" where
  "backoff attempt = signed_take_bit 63 (attempt * Second)"

function writeAttempts ::
  "(int \<Rightarrow> attempt_env) \<Rightarrow> time \<Rightarrow> TelemetryData list \<Rightarrow> int \<Rightarrow> err option \<Rightarrow>
     write_event list \<Rightarrow> HybridStore \<Rightarrow> err option \<times> write_event list \<times> HybridStore" where
  "writeAttempts env now metrics attempt e tr hs =
     (if attempt \<le> MaxRetries (config hs) then
        (if ctxDoneBefore (env attempt) then (Some CtxErr, tr, hs)
         else (case storeResult (env attempt) of
                 None \<Rightarrow>
                   (None, tr @ [StoreCall attempt],
                    hs\<lparr>repository := repository hs @ metrics,
                       totalDBWrites := totalDBWrites hs + of_nat (length metrics),
                       pendingFlushItems := pendingFlushItems hs - of_nat (length metrics),
                       lastFlushTime := now\<rparr>)
               | Some e' \<Rightarrow>
                   (if attempt < MaxRetries (config hs) then
                      (if ctxDoneInBackoff (env attempt)
                       then (Some CtxErr,
                             tr @ [StoreCall attempt, BackoffAborted (backoff attempt)], hs)
                       else writeAttempts env now metrics (attempt + 1) (Some e')
                              (tr @ [StoreCall attempt, BackoffWait (backoff attempt)]) hs)
                    else writeAttempts env now metrics (attempt + 1) (Some e')
                           (tr @ [StoreCall attempt]) hs)))
      else (Some (WriteFailedAfter (MaxRetries (config hs)) e), tr,
            hs\<lparr>totalDBWriteErrors := totalDBWriteErrors hs + 1\<rparr>))"
  by pat_completeness auto
termination
  by (relation "measure (\<lambda>(env, now, metrics, attempt, e, tr, hs).
        nat (MaxRetries (config hs) + 1 - attempt))") auto

definition writeToDatabase ::
  "(int \<Rightarrow> attempt_env) \<Rightarrow> time \<Rightarrow> TelemetryData list \<Rightarrow> HybridStore \<Rightarrow>
     err option \<times> write_event list \<times> HybridStore" where
  "writeToDatabase env now metrics hs =
     (if length metrics = 0 then (None, [], hs)
      else writeAttempts env now metrics 1 None [] hs)"

definition HybridStore_StoreMetricsBulk ::
  "(int \<Rightarrow> attempt_env) \<Rightarrow> time \<Rightarrow> time \<Rightarrow> TelemetryData list \<Rightarrow> HybridStore \<Rightarrow>
     err option \<times> write_event list \<times> HybridStore" where
  "HybridStore_StoreMetricsBulk env now nowDB metrics hs =
     (if length metrics = 0 then (None, [], hs)
      else (let cacheData = fold (\<lambda>metric m. AList.update (SwitchID metric) metric m) metrics []
            in case InMemoryCache_UpdateBatch cacheData now (cache hs) of
                 (Some e, c) \<Rightarrow>
                   (Some (Wrapped ''failed to update cache batch'' e), [], hs\<lparr>cache := c\<rparr>)
               | (None, c) \<Rightarrow> writeToDatabase env nowDB metrics (hs\<lparr>cache := c\<rparr>)))"

subsection \<open>Reads\<close>

definition HybridStore_GetMetric ::
  "string \<Rightarrow> MetricType \<Rightarrow> HybridStore \<Rightarrow> (err + metric_value) \<times> HybridStore" where
  "HybridStore_GetMetric switchID metricType hs =
     (let hs1 = incrementCacheHit (incrementRequestCount hs)
      in case InMemoryCache_GetMetric switchID metricType (cache hs1) of
           (r, c) \<Rightarrow> (r, hs1\<lparr>cache := c\<rparr>))"

definition HybridStore_GetLastUpdate :: "string \<Rightarrow> HybridStore \<Rightarrow> time" where
  "HybridStore_GetLastUpdate switchID hs = InMemoryCache_GetLastUpdate switchID (cache hs)"






section \<open>The telemetry service (internal/telemetry/service_with_queue.go)\<close>

record MetricResponse =
  r_SwitchID :: string
  r_MetricType :: string
  r_Value :: metric_value
  r_Timestamp :: time

definition telemetryService_IngestMetrics ::
  "TelemetryData \<Rightarrow> time \<Rightarrow> time \<Rightarrow> HybridStore \<Rightarrow> err option \<times> HybridStore" where
  "telemetryService_IngestMetrics td now1 now2 hs =
     (if SwitchID td = [] then (Some EmptySwitchID, hs)
      else (case HybridStore_UpdateMetrics (SwitchID td) td now1 now2 hs of
              (Some e, hs') \<Rightarrow> (Some (Wrapped ''failed to ingest metrics'' e), hs')
            | (None, hs') \<Rightarrow> (None, hs')))"

text \<open>\<^verbatim>\<open>IngestBatch\<close> writes under \<^verbatim>\<open>context.Background()\<close>, which is never done.\<close>

definition background :: "(int \<Rightarrow> attempt_env) \<Rightarrow> int \<Rightarrow> attempt_env" where
  "background env attempt = (env attempt)\<lparr>ctxDoneBefore := False, ctxDoneInBackoff := False\<rparr>"

definition telemetryService_IngestBatch ::
  "(int \<Rightarrow> attempt_env) \<Rightarrow> time \<Rightarrow> time \<Rightarrow> TelemetryData list \<Rightarrow> HybridStore \<Rightarrow>
     err option \<times> HybridStore" where
  "telemetryService_IngestBatch env now nowDB batch hs =
     (if length batch = 0 then (None, hs)
      else (let validData = filter (\<lambda>telemetryData. SwitchID telemetryData \<noteq> []) batch
            in if length validData = 0 then (Some NoValidTelemetryData, hs)
               else (case HybridStore_StoreMetricsBulk (background env) now nowDB validData hs of
                       (Some e, tr, hs') \<Rightarrow>
                         (Some (Wrapped ''failed to ingest batch metrics'' e), hs')
                     | (None, tr, hs') \<Rightarrow> (None, hs'))))"

definition telemetryService_GetMetric ::
  "string \<Rightarrow> MetricType \<Rightarrow> time \<Rightarrow> HybridStore \<Rightarrow> (err + MetricResponse) \<times> HybridStore" where
  "telemetryService_GetMetric switchID metricType now hs =
     (if switchID = [] then (Inl EmptySwitchID, hs)
      else (case HybridStore_GetMetric switchID metricType hs of
              (Inl e, hs') \<Rightarrow> (Inl (Wrapped ''failed to get metric'' e), hs')
            | (Inr v, hs') \<Rightarrow>
                (let lastUpdate = HybridStore_GetLastUpdate switchID hs'
                 in (Inr \<lparr>r_SwitchID = switchID, r_MetricType = metricType, r_Value = v,
                           r_Timestamp = (if IsZero lastUpdate then now else lastUpdate)\<rparr>,
                     hs'))))"

definition ValidateMetricData :: "TelemetryData \<Rightarrow> err option" where
  "ValidateMetricData td =
     (if SwitchID td = [] then Some EmptySwitchID
      else if BandwidthMbps td < 0 then Some BandwidthNegative
      else if LatencyMs td < 0 then Some LatencyNegative
      else if sint (PacketErrors td) < 0 then Some PacketErrorsNegative
      else if UtilizationPct td < 0 \<or> 100 < UtilizationPct td then Some UtilizationOutOfRange
      else None)"








section \<open>The ingestion client (internal/telemetry/client/generator_client.go)\<close>

text \<open>
  One poll. The HTTP exchange is an input: an error, or the body and the two headers the
  client reads (empty when absent). \<^verbatim>\<open>time.Parse(time.RFC3339Nano, _)\<close> is the parameter
  \<open>timeParse\<close> and \<^verbatim>\<open>parseCSVData\<close>, built on the CSV reader, the parameter \<open>parseCSV\<close>.
  Registering the switches of a batch only writes the repository's switch table, which is
  not part of the state here.
\<close>

record GeneratorClient =
  lastGenerationID :: string
  lastDataTimestamp :: time
  totalPolls :: int64
  successfulPolls :: int64
  duplicateSkips :: int64
  errorCount :: int64
  lastPollTime :: time

record response =
  csvData :: string
  X_Generation_ID :: string
  X_Data_Timestamp :: string

definition isDuplicateData :: "string \<Rightarrow> time \<Rightarrow> GeneratorClient \<Rightarrow> bool" where
  "isDuplicateData generationID dataTimestamp gc =
     (if generationID \<noteq> [] \<and> generationID = lastGenerationID gc then True
      else if \<not> IsZero dataTimestamp \<and> \<not> After dataTimestamp (lastDataTimestamp gc) then True
      else False)"

definition parseTimestamp :: "(string \<Rightarrow> time option) \<Rightarrow> string \<Rightarrow> time" where
  "parseTimestamp timeParse timestampStr =
     (if timestampStr = [] then 0
      else (case timeParse timestampStr of None \<Rightarrow> 0 | Some timestamp \<Rightarrow> timestamp))"

text \<open>\<^verbatim>\<open>strings.Split\<close> with a separator of one byte.\<close>

fun Split :: "char \<Rightarrow> string \<Rightarrow> string list" where
  "Split sep [] = [[]]"
| "Split sep (c # cs) =
     (if c = sep then [] # Split sep cs
      else (case Split sep cs of [] \<Rightarrow> [[c]] | w # ws \<Rightarrow> (c # w) # ws))"

definition extractFirstTimestampFromCSV :: "(string \<Rightarrow> time option) \<Rightarrow> string \<Rightarrow> time" where
  "extractFirstTimestampFromCSV timeParse body =
     (let lines = Split (CHR 0x0A) body
      in if length lines < 2 then 0
         else (let fields = Split (CHR '','') (lines ! 1)
               in if length fields < 2 then 0
                  else (case timeParse (fields ! 1) of None \<Rightarrow> 0 | Some timestamp \<Rightarrow> timestamp)))"

definition fetchAndProcessData ::
  "(string \<Rightarrow> time option) \<Rightarrow> (string \<Rightarrow> err + TelemetryData list) \<Rightarrow> err + response \<Rightarrow>
     (int \<Rightarrow> attempt_env) \<Rightarrow> time \<Rightarrow> time \<Rightarrow> GeneratorClient \<times> HybridStore \<Rightarrow>
     GeneratorClient \<times> HybridStore" where
  "fetchAndProcessData timeParse parseCSV fetched env now nowDB st =
     (case st of (gc, hs) \<Rightarrow>
        (case fetched of
           Inl e \<Rightarrow> (gc\<lparr>errorCount := errorCount gc + 1\<rparr>, hs)
         | Inr resp \<Rightarrow>
             (let generationID = X_Generation_ID resp;
                  hdrTimestamp = parseTimestamp timeParse (X_Data_Timestamp resp);
                  dataTimestamp =
                    (if IsZero hdrTimestamp \<and> 0 < length (csvData resp)
                     then extractFirstTimestampFromCSV timeParse (csvData resp)
                     else hdrTimestamp)
              in if isDuplicateData generationID dataTimestamp gc
                 then (gc\<lparr>duplicateSkips := duplicateSkips gc + 1\<rparr>, hs)
                 else (case parseCSV (csvData resp) of
                         Inl e \<Rightarrow> (gc\<lparr>errorCount := errorCount gc + 1\<rparr>, hs)
                       | Inr telemetryData \<Rightarrow>
                           (case telemetryService_IngestBatch env now nowDB telemetryData hs of
                              (Some e, hs') \<Rightarrow> (gc\<lparr>errorCount := errorCount gc + 1\<rparr>, hs')
                            | (None, hs') \<Rightarrow>
                                (gc\<lparr>lastGenerationID := generationID,
                                    lastDataTimestamp := dataTimestamp,
                                    successfulPolls := successfulPolls gc + 1\<rparr>, hs'))))))"

definition pollAndIngest ::
  "(string \<Rightarrow> time option) \<Rightarrow> (string \<Rightarrow> err + TelemetryData list) \<Rightarrow> err + response \<Rightarrow>
     (int \<Rightarrow> attempt_env) \<Rightarrow> time \<Rightarrow> time \<Rightarrow> time \<Rightarrow> GeneratorClient \<times> HybridStore \<Rightarrow>
     GeneratorClient \<times> HybridStore" where
  "pollAndIngest timeParse parseCSV fetched env nowPoll now nowDB st =
     (case st of (gc, hs) \<Rightarrow>
        fetchAndProcessData timeParse parseCSV fetched env now nowDB
          (gc\<lparr>totalPolls := totalPolls gc + 1, lastPollTime := nowPoll\<rparr>, hs))"

section \<open>Auxiliary notions for the statements\<close>

text \<open>The last record of a batch that carries switch id \<open>k\<close>, if there is one.\<close>

definition lastFor :: "string \<Rightarrow> TelemetryData list \<Rightarrow> TelemetryData option" where
  "lastFor k metrics = find (\<lambda>metric. SwitchID metric = k) (rev metrics)"

text \<open>
  What \<^verbatim>\<open>writeToDatabase\<close> leaves alone: it touches the repository and its own counters
  only, and the repository gets the batch exactly when the call returns nil.
\<close>

definition write_frame ::
  "TelemetryData list \<Rightarrow> HybridStore \<Rightarrow> err option \<times> write_event list \<times> HybridStore \<Rightarrow> bool" where
  "write_frame metrics hs res =
     (case res of (r, tr, hs') \<Rightarrow>
        cache hs' = cache hs \<and> flushQueue hs' = flushQueue hs \<and> config hs' = config hs
        \<and> totalRequests hs' = totalRequests hs \<and> totalCacheHits hs' = totalCacheHits hs
        \<and> ctx hs' = ctx hs \<and> cancel hs' = cancel hs \<and> wg hs' = wg hs
        \<and> repository hs' = (if r = None then repository hs @ metrics else repository hs))"






text \<open>\<^verbatim>\<open>Start\<close> sets \<^verbatim>\<open>hs.ctx\<close> and \<^verbatim>\<open>hs.cancel\<close> together, and nothing resets them.\<close>

definition lifecycle_inv :: "HybridStore \<Rightarrow> bool" where
  "lifecycle_inv hs = (cancel hs = (ctx hs \<noteq> None))"

section \<open>Concrete inputs\<close>

text \<open>A record as upstream sends it (scenario S2 of the specification), and one whose
  timestamp was left out.\<close>

definition rec1 :: TelemetryData where
  "rec1 = \<lparr>ID = 0, SwitchID = ''sw-01'', Timestamp = 63871286400000000000,
            BandwidthMbps = 100, LatencyMs = 1, PacketErrors = 0, UtilizationPct = 50,
            TemperatureC = 40, CreatedAt = 0\<rparr>"

definition rec0 :: TelemetryData where
  "rec0 = rec1\<lparr>Timestamp := 0\<rparr>"

definition store0 :: HybridStore where
  "store0 = NewHybridStore NewInMemoryCache [] DefaultHybridStoreConfig 63871286400000000000"

text \<open>Surroundings of a write: a repository that stores at once, and one whose first answer
  is a fatal error.\<close>

definition envOK :: "int \<Rightarrow> attempt_env" where
  "envOK attempt = \<lparr>ctxDoneBefore = False, storeResult = None, ctxDoneInBackoff = False\<rparr>"



text \<open>The store after a first \<^verbatim>\<open>Start\<close> at instant 5.\<close>

definition startedStore :: HybridStore where
  "startedStore = store0\<lparr>ctx := Some CtxLive, cancel := True, startTime := 5, wg := 3\<rparr>"





section \<open>Cache invariant\<close>

lemma dataCopy_SwitchID: "SwitchID (dataCopy k td now) = k"
  by (simp add: dataCopy_def Let_def)

lemma dataCopy_Timestamp:
  "Timestamp (dataCopy k td now) = (if IsZero (Timestamp td) then now else Timestamp td)"
  by (simp add: dataCopy_def Let_def)

lemma cache_inv_UpdateMetrics:
  assumes "cache_inv c" and "\<not> IsZero now1"
  shows "cache_inv (snd (InMemoryCache_UpdateMetrics k td now1 now2 c))"
  using assms
  by (auto simp: cache_inv_def InMemoryCache_UpdateMetrics_def dataCopy_SwitchID
      dataCopy_Timestamp)

lemma cache_inv_step:
  assumes "cache_inv c" and "\<not> IsZero now"
  shows "cache_inv (UpdateBatch_step now kv c)"
  using assms
  by (auto simp: cache_inv_def UpdateBatch_step_def dataCopy_SwitchID dataCopy_Timestamp)

lemma cache_inv_fold_step:
  assumes "cache_inv c" and "\<not> IsZero now"
  shows "cache_inv (fold (UpdateBatch_step now) batch c)"
  using assms by (induction batch arbitrary: c) (simp_all add: cache_inv_step)

lemma cache_inv_UpdateBatch:
  assumes "cache_inv c" and "\<not> IsZero now"
  shows "cache_inv (snd (InMemoryCache_UpdateBatch batch now c))"
  using assms by (simp add: InMemoryCache_UpdateBatch_def cache_inv_fold_step)

lemma cache_inv_apply:
  assumes "cache_inv c" and "op_clock_ok x"
  shows "cache_inv (cache_apply x c)"
  using assms by (cases x) (simp_all add: cache_inv_UpdateMetrics cache_inv_UpdateBatch)

lemma cache_inv_fold_apply:
  assumes "cache_inv c" and "list_all op_clock_ok ops"
  shows "cache_inv (fold cache_apply ops c)"
  using assms by (induction ops arbitrary: c) (simp_all add: cache_inv_apply)

lemma cache_inv_New: "cache_inv NewInMemoryCache"
  by (simp add: cache_inv_def NewInMemoryCache_def)

lemma step_data:
  "data (UpdateBatch_step now kv c) k =
     (if fst kv \<noteq> [] \<and> k = fst kv then Some (dataCopy k (snd kv) now) else data c k)"
  by (simp add: UpdateBatch_step_def)

lemma fold_step_data:
  "data (fold (UpdateBatch_step now) batch c) k =
     (if k = [] then data c k
      else (case map_of (rev batch) k of
              None \<Rightarrow> data c k
            | Some td \<Rightarrow> Some (dataCopy k td now)))"
proof (induction batch arbitrary: c)
  case Nil
  then show ?case by simp
next
  case (Cons kv batch)
  show ?case
    by (cases kv) (auto simp: Cons step_data map_add_def split: option.splits)
qed

lemma UpdateBatch_eq:
  "InMemoryCache_UpdateBatch batch now c = (None, fold (UpdateBatch_step now) batch c)"
  by (cases batch) (simp_all add: InMemoryCache_UpdateBatch_def)

text \<open>
  C6. After any sequence of \<^verbatim>\<open>UpdateMetrics\<close> and \<^verbatim>\<open>UpdateBatch\<close> calls on a new cache,
  with a clock that never reads the zero instant, every record stored in the cache has a
  non-zero timestamp and a non-empty switch id (the key it is stored under). Both calls
  store a record with its own timestamp unless that is zero, and then with the clock
  reading. \<^verbatim>\<open>UpdateMetrics\<close> with an empty switch id returns an error and leaves the cache
  as it was.
\<close>

theorem C6_cache_records_wellformed:
  "(list_all op_clock_ok ops \<longrightarrow>
      (\<forall>k td. data (cache_run ops) k = Some td \<longrightarrow>
         \<not> IsZero (Timestamp td) \<and> SwitchID td \<noteq> [] \<and> SwitchID td = k))
   \<and> (k \<noteq> [] \<longrightarrow>
        data (snd (InMemoryCache_UpdateMetrics k td now1 now2 c)) k =
          Some (td\<lparr>SwitchID := k,
                    Timestamp := (if IsZero (Timestamp td) then now1 else Timestamp td)\<rparr>))
   \<and> (k \<noteq> [] \<and> map_of (rev batch) k = Some td \<longrightarrow>
        data (snd (InMemoryCache_UpdateBatch batch now c)) k =
          Some (td\<lparr>SwitchID := k,
                    Timestamp := (if IsZero (Timestamp td) then now else Timestamp td)\<rparr>))
   \<and> InMemoryCache_UpdateMetrics [] td now1 now2 c = (Some EmptySwitchID, c)"
proof (intro conjI impI)
  assume "list_all op_clock_ok ops"
  then have "cache_inv (cache_run ops)"
    unfolding cache_run_def by (rule cache_inv_fold_apply [OF cache_inv_New])
  then show "\<forall>k td. data (cache_run ops) k = Some td \<longrightarrow>
      \<not> IsZero (Timestamp td) \<and> SwitchID td \<noteq> [] \<and> SwitchID td = k"
    unfolding cache_inv_def .
next
  assume "k \<noteq> []"
  then show "data (snd (InMemoryCache_UpdateMetrics k td now1 now2 c)) k =
      Some (td\<lparr>SwitchID := k,
                Timestamp := (if IsZero (Timestamp td) then now1 else Timestamp td)\<rparr>)"
    by (simp add: InMemoryCache_UpdateMetrics_def dataCopy_def Let_def)
next
  assume "k \<noteq> [] \<and> map_of (rev batch) k = Some td"
  then show "data (snd (InMemoryCache_UpdateBatch batch now c)) k =
      Some (td\<lparr>SwitchID := k,
                Timestamp := (if IsZero (Timestamp td) then now else Timestamp td)\<rparr>)"
    by (simp add: UpdateBatch_eq fold_step_data dataCopy_def Let_def)
next
  show "InMemoryCache_UpdateMetrics [] td now1 now2 c = (Some EmptySwitchID, c)"
    by (simp add: InMemoryCache_UpdateMetrics_def)
qed

theorem C6_cache_records_wellformed_witness:
  "list_all op_clock_ok [OpUpdateBatch [(''sw-01'', rec0)] 7, OpUpdateMetrics ''sw-02'' rec1 8 9]
   \<and> data (cache_run [OpUpdateBatch [(''sw-01'', rec0)] 7, OpUpdateMetrics ''sw-02'' rec1 8 9])
         ''sw-01'' = Some (rec0\<lparr>Timestamp := 7\<rparr>)
   \<and> \<not> IsZero (Timestamp (rec0\<lparr>Timestamp := 7\<rparr>))
   \<and> SwitchID (rec0\<lparr>Timestamp := 7\<rparr>) = ''sw-01''
   \<and> data (snd (InMemoryCache_UpdateMetrics ''sw-01'' rec0 7 8 NewInMemoryCache)) ''sw-01''
       = Some (rec0\<lparr>Timestamp := 7\<rparr>)
   \<and> map_of (rev [(''sw-01'', rec0)]) ''sw-01'' = Some rec0
   \<and> data (snd (InMemoryCache_UpdateBatch [(''sw-01'', rec0)] 7 NewInMemoryCache)) ''sw-01''
       = Some (rec0\<lparr>Timestamp := 7\<rparr>)"
proof -
  let ?ops = "[OpUpdateBatch [(''sw-01'', rec0)] 7, OpUpdateMetrics ''sw-02'' rec1 8 9]"
  have ok: "list_all op_clock_ok ?ops"
    by (simp add: IsZero_def)
  have stored: "data (cache_run ?ops) ''sw-01'' = Some (rec0\<lparr>Timestamp := 7\<rparr>)"
    by (simp add: cache_run_def InMemoryCache_UpdateBatch_def UpdateBatch_step_def
        InMemoryCache_UpdateMetrics_def NewInMemoryCache_def dataCopy_def IsZero_def
        rec0_def rec1_def)
  have entry: "map_of (rev [(''sw-01'', rec0)]) ''sw-01'' = Some rec0"
    by simp
  note inst = C6_cache_records_wellformed [where ops = ?ops and k = "''sw-01''" and td = rec0
      and ?now1.0 = 7 and ?now2.0 = 8 and c = NewInMemoryCache and batch = "[(''sw-01'', rec0)]"
      and now = 7]
  from inst ok stored have "\<not> IsZero (Timestamp (rec0\<lparr>Timestamp := 7\<rparr>))
      \<and> SwitchID (rec0\<lparr>Timestamp := 7\<rparr>) = ''sw-01''"
    by blast
  moreover from inst have "data (snd (InMemoryCache_UpdateMetrics ''sw-01'' rec0 7 8
      NewInMemoryCache)) ''sw-01'' = Some (rec0\<lparr>Timestamp := 7\<rparr>)"
    by (simp add: rec0_def rec1_def IsZero_def)
  moreover from inst entry have "data (snd (InMemoryCache_UpdateBatch [(''sw-01'', rec0)] 7
      NewInMemoryCache)) ''sw-01'' = Some (rec0\<lparr>Timestamp := 7\<rparr>)"
    by (simp add: rec0_def rec1_def IsZero_def)
  ultimately show ?thesis using ok stored entry by blast
qed

section \<open>The bulk path and the retry loop\<close>

lemma find_append:
  "find P (xs @ ys) = (case find P xs of None \<Rightarrow> find P ys | Some x \<Rightarrow> Some x)"
  by (induction xs) simp_all

lemma map_of_cacheData:
  "map_of (fold (\<lambda>metric m. AList.update (SwitchID metric) metric m) metrics acc) k =
     (case lastFor k metrics of None \<Rightarrow> map_of acc k | Some td \<Rightarrow> Some td)"
proof (induction metrics arbitrary: acc)
  case Nil
  then show ?case by (simp add: lastFor_def)
next
  case (Cons a metrics)
  show ?case
    by (auto simp: Cons lastFor_def update_conv' find_append split: option.splits)
qed

lemma distinct_cacheData:
  "distinct (map fst acc) \<Longrightarrow>
     distinct (map fst (fold (\<lambda>metric m. AList.update (SwitchID metric) metric m) metrics acc))"
  by (induction metrics arbitrary: acc) (simp_all add: distinct_update)

lemma map_of_rev_distinct:
  "distinct (map fst xs) \<Longrightarrow> map_of (rev xs) k = map_of xs k"
proof (induction xs)
  case Nil
  then show ?case by simp
next
  case (Cons x xs)
  then have ih: "map_of (rev xs) k = map_of xs k" and fresh: "fst x \<notin> fst ` set xs"
    by simp_all
  from fresh have none: "map_of xs (fst x) = None"
    by (simp add: map_of_eq_None_iff)
  show ?case
  proof (cases "k = fst x")
    case True
    with ih none show ?thesis by (cases x) (simp add: map_add_def)
  next
    case False
    with ih show ?thesis by (cases x) (simp add: map_add_def split: option.splits)
  qed
qed


declare writeAttempts.simps [simp del]

lemma writeAttempts_exhausted:
  "\<not> attempt \<le> MaxRetries (config hs) \<Longrightarrow>
     writeAttempts env now metrics attempt e tr hs =
       (Some (WriteFailedAfter (MaxRetries (config hs)) e), tr,
        hs\<lparr>totalDBWriteErrors := totalDBWriteErrors hs + 1\<rparr>)"
  by (subst writeAttempts.simps) simp

lemma writeAttempts_cancelled:
  "attempt \<le> MaxRetries (config hs) \<Longrightarrow> ctxDoneBefore (env attempt) \<Longrightarrow>
     writeAttempts env now metrics attempt e tr hs = (Some CtxErr, tr, hs)"
  by (subst writeAttempts.simps) simp

lemma writeAttempts_stored:
  "attempt \<le> MaxRetries (config hs) \<Longrightarrow> \<not> ctxDoneBefore (env attempt) \<Longrightarrow>
   storeResult (env attempt) = None \<Longrightarrow>
     writeAttempts env now metrics attempt e tr hs =
       (None, tr @ [StoreCall attempt],
        hs\<lparr>repository := repository hs @ metrics,
           totalDBWrites := totalDBWrites hs + of_nat (length metrics),
           pendingFlushItems := pendingFlushItems hs - of_nat (length metrics),
           lastFlushTime := now\<rparr>)"
  by (subst writeAttempts.simps) simp

lemma writeAttempts_aborted:
  "attempt < MaxRetries (config hs) \<Longrightarrow> \<not> ctxDoneBefore (env attempt) \<Longrightarrow>
   storeResult (env attempt) = Some e' \<Longrightarrow> ctxDoneInBackoff (env attempt) \<Longrightarrow>
     writeAttempts env now metrics attempt e tr hs =
       (Some CtxErr, tr @ [StoreCall attempt, BackoffAborted (backoff attempt)], hs)"
  by (subst writeAttempts.simps) simp

lemma writeAttempts_retry:
  "attempt < MaxRetries (config hs) \<Longrightarrow> \<not> ctxDoneBefore (env attempt) \<Longrightarrow>
   storeResult (env attempt) = Some e' \<Longrightarrow> \<not> ctxDoneInBackoff (env attempt) \<Longrightarrow>
     writeAttempts env now metrics attempt e tr hs =
       writeAttempts env now metrics (attempt + 1) (Some e')
         (tr @ [StoreCall attempt, BackoffWait (backoff attempt)]) hs"
  by (subst writeAttempts.simps) simp

lemma writeAttempts_last:
  "attempt = MaxRetries (config hs) \<Longrightarrow> \<not> ctxDoneBefore (env attempt) \<Longrightarrow>
   storeResult (env attempt) = Some e' \<Longrightarrow>
     writeAttempts env now metrics attempt e tr hs =
       (Some (WriteFailedAfter (MaxRetries (config hs)) (Some e')), tr @ [StoreCall attempt],
        hs\<lparr>totalDBWriteErrors := totalDBWriteErrors hs + 1\<rparr>)"
  by (subst writeAttempts.simps) (simp add: writeAttempts_exhausted)

text \<open>The ways one round of the loop can go.\<close>

lemma writeAttempts_cases:
  obtains
    (exhausted) "\<not> attempt \<le> MaxRetries (config hs)"
  | (cancelled) "attempt \<le> MaxRetries (config hs)" "ctxDoneBefore (env attempt)"
  | (stored) "attempt \<le> MaxRetries (config hs)" "\<not> ctxDoneBefore (env attempt)"
      "storeResult (env attempt) = None"
  | (aborted) e' where "attempt < MaxRetries (config hs)" "\<not> ctxDoneBefore (env attempt)"
      "storeResult (env attempt) = Some e'" "ctxDoneInBackoff (env attempt)"
  | (retry) e' where "attempt < MaxRetries (config hs)" "\<not> ctxDoneBefore (env attempt)"
      "storeResult (env attempt) = Some e'" "\<not> ctxDoneInBackoff (env attempt)"
  | (last) e' where "attempt = MaxRetries (config hs)" "\<not> ctxDoneBefore (env attempt)"
      "storeResult (env attempt) = Some e'"
  by (cases "storeResult (env attempt)") force+

lemma writeAttempts_frame:
  "write_frame metrics hs (writeAttempts env now metrics attempt e tr hs)"
proof (induction env now metrics attempt e tr hs rule: writeAttempts.induct)
  case (1 env now metrics attempt e tr hs)
  show ?case
  proof (cases rule: writeAttempts_cases [where attempt = attempt and hs = hs and env = env])
    case exhausted
    then show ?thesis by (simp add: writeAttempts_exhausted write_frame_def)
  next
    case cancelled
    then show ?thesis by (simp add: writeAttempts_cancelled write_frame_def)
  next
    case stored
    then show ?thesis by (simp add: writeAttempts_stored write_frame_def)
  next
    case (aborted e')
    then show ?thesis by (simp add: writeAttempts_aborted write_frame_def)
  next
    case (retry e')
    with "1.IH"(1) [of e'] show ?thesis by (simp add: writeAttempts_retry)
  next
    case (last e')
    then show ?thesis by (simp add: writeAttempts_last write_frame_def)
  qed
qed







section \<open>Ingest, then read\<close>

lemma IngestMetrics_ok:
  assumes "SwitchID R \<noteq> []"
  shows "fst (telemetryService_IngestMetrics R now1 now2 hs) = None"
    and "data (cache (snd (telemetryService_IngestMetrics R now1 now2 hs))) (SwitchID R)
          = Some (dataCopy (SwitchID R) R now1)"
    and "lastUpdated (cache (snd (telemetryService_IngestMetrics R now1 now2 hs))) (SwitchID R)
          = Some now2"
  using assms
  by (simp_all add: telemetryService_IngestMetrics_def HybridStore_UpdateMetrics_def
      InMemoryCache_UpdateMetrics_def incrementRequestCount_def Let_def)

lemma GetMetric_found:
  assumes "data (cache hs) k = Some td" and "k \<noteq> []" and "GetMetricValue td m = Inr v"
  shows "fst (telemetryService_GetMetric k m now hs) =
           Inr \<lparr>r_SwitchID = k, r_MetricType = m, r_Value = v,
                r_Timestamp = (if IsZero (InMemoryCache_GetLastUpdate k (cache hs)) then now
                               else InMemoryCache_GetLastUpdate k (cache hs))\<rparr>"
  using assms
  by (simp add: telemetryService_GetMetric_def HybridStore_GetMetric_def
      InMemoryCache_GetMetric_def incrementRequestCount_def incrementCacheHit_def Let_def
      HybridStore_GetLastUpdate_def InMemoryCache_GetLastUpdate_def)

lemma GetMetricValue_dataCopy:
  "GetMetricValue (dataCopy k td now) m = GetMetricValue td m"
  by (simp add: GetMetricValue_def dataCopy_def Let_def)

lemma GetMetricValue_five:
  "GetMetricValue td MetricBandwidth = Inr (Float64 (BandwidthMbps td))"
  "GetMetricValue td MetricLatency = Inr (Float64 (LatencyMs td))"
  "GetMetricValue td MetricPacketErrors = Inr (Int64 (PacketErrors td))"
  "GetMetricValue td MetricUtilization = Inr (Float64 (UtilizationPct td))"
  "GetMetricValue td MetricTemperature = Inr (Float64 (TemperatureC td))"
  by (simp_all add: GetMetricValue_def MetricBandwidth_def MetricLatency_def
      MetricPacketErrors_def MetricUtilization_def MetricTemperature_def)

lemma GetMetric_after_ingest:
  assumes "SwitchID R \<noteq> []" and "GetMetricValue R m = Inr v"
  shows "fst (telemetryService_GetMetric (SwitchID R) m now
                (snd (telemetryService_IngestMetrics R now1 now2 hs)))
           = Inr \<lparr>r_SwitchID = SwitchID R, r_MetricType = m, r_Value = v,
                  r_Timestamp = (if IsZero now2 then now else now2)\<rparr>"
proof -
  have "GetMetricValue (dataCopy (SwitchID R) R now1) m = Inr v"
    by (simp add: GetMetricValue_dataCopy assms(2))
  from GetMetric_found [OF IngestMetrics_ok(2) [OF assms(1)] assms(1) this]
  show ?thesis
    by (simp add: InMemoryCache_GetLastUpdate_def IngestMetrics_ok(3) [OF assms(1)])
qed

text \<open>
  C7. A record with a non-empty switch id is accepted by \<^verbatim>\<open>IngestMetrics\<close>, and a
  \<^verbatim>\<open>GetMetric\<close> on the resulting store, for the record's switch id and each of the five
  metric types, answers with the record's value for that metric (and the instant the cache
  noted for the update).
\<close>

theorem C7_ingest_then_get_metric:
  "SwitchID R \<noteq> [] \<longrightarrow>
     (let hs' = snd (telemetryService_IngestMetrics R now1 now2 hs);
          answer = (\<lambda>m v. Inr \<lparr>r_SwitchID = SwitchID R, r_MetricType = m, r_Value = v,
                                r_Timestamp = (if IsZero now2 then now else now2)\<rparr>)
      in fst (telemetryService_IngestMetrics R now1 now2 hs) = None
         \<and> fst (telemetryService_GetMetric (SwitchID R) MetricBandwidth now hs')
             = answer MetricBandwidth (Float64 (BandwidthMbps R))
         \<and> fst (telemetryService_GetMetric (SwitchID R) MetricLatency now hs')
             = answer MetricLatency (Float64 (LatencyMs R))
         \<and> fst (telemetryService_GetMetric (SwitchID R) MetricPacketErrors now hs')
             = answer MetricPacketErrors (Int64 (PacketErrors R))
         \<and> fst (telemetryService_GetMetric (SwitchID R) MetricUtilization now hs')
             = answer MetricUtilization (Float64 (UtilizationPct R))
         \<and> fst (telemetryService_GetMetric (SwitchID R) MetricTemperature now hs')
             = answer MetricTemperature (Float64 (TemperatureC R)))"
  unfolding Let_def
  by (intro impI conjI GetMetric_after_ingest GetMetricValue_five IngestMetrics_ok(1))

theorem C7_ingest_then_get_metric_witness:
  "SwitchID rec1 \<noteq> []
   \<and> fst (telemetryService_IngestMetrics rec1 7 8 store0) = None
   \<and> fst (telemetryService_GetMetric ''sw-01'' MetricBandwidth 9
             (snd (telemetryService_IngestMetrics rec1 7 8 store0)))
       = Inr \<lparr>r_SwitchID = ''sw-01'', r_MetricType = ''bandwidth_mbps'', r_Value = Float64 100,
              r_Timestamp = 8\<rparr>
   \<and> fst (telemetryService_GetMetric ''sw-01'' MetricPacketErrors 9
             (snd (telemetryService_IngestMetrics rec1 7 8 store0)))
       = Inr \<lparr>r_SwitchID = ''sw-01'', r_MetricType = ''packet_errors'', r_Value = Int64 0,
              r_Timestamp = 8\<rparr>"
proof -
  have ne: "SwitchID rec1 \<noteq> []"
    by (simp add: rec1_def)
  from C7_ingest_then_get_metric [of rec1 7 8 store0 9] ne show ?thesis
    by (simp add: Let_def rec1_def IsZero_def MetricBandwidth_def MetricPacketErrors_def)
qed

section \<open>StoreMetricsBulk\<close>

lemma writeToDatabase_frame: "write_frame metrics hs (writeToDatabase env now metrics hs)"
  by (simp add: writeToDatabase_def writeAttempts_frame) (simp add: write_frame_def)

lemma StoreMetricsBulk_eq:
  "metrics \<noteq> [] \<Longrightarrow>
     HybridStore_StoreMetricsBulk env now nowDB metrics hs =
       writeToDatabase env nowDB metrics
         (hs\<lparr>cache := fold (UpdateBatch_step now)
                          (fold (\<lambda>metric m. AList.update (SwitchID metric) metric m) metrics [])
                          (cache hs)\<rparr>)"
  by (simp add: HybridStore_StoreMetricsBulk_def UpdateBatch_eq Let_def)

lemma cacheData_data:
  "data (fold (UpdateBatch_step now)
           (fold (\<lambda>metric m. AList.update (SwitchID metric) metric m) metrics []) c) k =
     (if k = [] then data c k
      else (case lastFor k metrics of None \<Rightarrow> data c k | Some td \<Rightarrow> Some (dataCopy k td now)))"
proof -
  have "distinct (map fst (fold (\<lambda>metric m. AList.update (SwitchID metric) metric m) metrics []))"
    by (rule distinct_cacheData) simp
  then show ?thesis
    by (simp add: fold_step_data map_of_rev_distinct map_of_cacheData split: option.splits)
qed

lemma StoreMetricsBulk_effect:
  assumes "metrics \<noteq> []"
  shows "case HybridStore_StoreMetricsBulk env now nowDB metrics hs of (r, tr, hs') \<Rightarrow>
      (\<forall>k. data (cache hs') k =
         (if k = [] then data (cache hs) k
          else (case lastFor k metrics of
                  None \<Rightarrow> data (cache hs) k
                | Some td \<Rightarrow> Some (dataCopy k td now))))
    \<and> flushQueue hs' = flushQueue hs
    \<and> repository hs' = (if r = None then repository hs @ metrics else repository hs)
    \<and> (r, tr, hs') = writeToDatabase env nowDB metrics (hs\<lparr>cache := cache hs'\<rparr>)"
proof -
  let ?mid = "hs\<lparr>cache := fold (UpdateBatch_step now)
      (fold (\<lambda>metric m. AList.update (SwitchID metric) metric m) metrics []) (cache hs)\<rparr>"
  obtain r tr hs' where res: "writeToDatabase env nowDB metrics ?mid = (r, tr, hs')"
    by (cases "writeToDatabase env nowDB metrics ?mid")
  from writeToDatabase_frame [of metrics ?mid env nowDB] res
  have fr: "cache hs' = cache ?mid" "flushQueue hs' = flushQueue hs"
    "repository hs' = (if r = None then repository hs @ metrics else repository hs)"
    by (simp_all add: write_frame_def)
  from fr(1) have mid: "hs\<lparr>cache := cache hs'\<rparr> = ?mid"
    by simp
  show ?thesis
    unfolding StoreMetricsBulk_eq [OF assms] res
    by (simp add: fr(2,3) mid res) (simp add: fr(1) cacheData_data)
qed

lemma writeToDatabase_first_try:
  assumes "metrics \<noteq> []" and "1 \<le> MaxRetries (config hs)" and "\<not> ctxDoneBefore (env 1)"
    and "storeResult (env 1) = None"
  shows "fst (writeToDatabase env now metrics hs) = None"
  using assms by (simp add: writeToDatabase_def writeAttempts_stored)


text \<open>
  C2, as amended. For every non-empty batch, \<^verbatim>\<open>StoreMetricsBulk\<close> puts into the cache, for
  each non-empty switch id of the batch, the last record of the batch with that id (stored
  as the cache stores it), leaves every other cache entry and the flush queue as they
  were, and hands the entire batch to \<^verbatim>\<open>writeToDatabase\<close> itself: when it returns nil the
  repository holds the whole batch appended, otherwise the repository is unchanged; it
  returns nil at once when the first repository call succeeds.
\<close>

theorem C2_StoreMetricsBulk_writes_through:
  "metrics \<noteq> [] \<longrightarrow>
     (case HybridStore_StoreMetricsBulk env now nowDB metrics hs of (r, tr, hs') \<Rightarrow>
        (\<forall>k. data (cache hs') k =
           (if k = [] then data (cache hs) k
            else (case lastFor k metrics of
                    None \<Rightarrow> data (cache hs) k
                  | Some td \<Rightarrow> Some (dataCopy k td now))))
        \<and> flushQueue hs' = flushQueue hs
        \<and> (r, tr, hs') = writeToDatabase env nowDB metrics (hs\<lparr>cache := cache hs'\<rparr>)
        \<and> repository hs' = (if r = None then repository hs @ metrics else repository hs)
        \<and> (1 \<le> MaxRetries (config hs) \<and> \<not> ctxDoneBefore (env 1) \<and> storeResult (env 1) = None
             \<longrightarrow> r = None))"
proof
  assume ne: "metrics \<noteq> []"
  obtain r tr hs' where res: "HybridStore_StoreMetricsBulk env now nowDB metrics hs = (r, tr, hs')"
    by (cases "HybridStore_StoreMetricsBulk env now nowDB metrics hs")
  from StoreMetricsBulk_effect [OF ne, where env = env and now = now and nowDB = nowDB and hs = hs] res
  have eff: "\<forall>k. data (cache hs') k =
           (if k = [] then data (cache hs) k
            else (case lastFor k metrics of
                    None \<Rightarrow> data (cache hs) k
                  | Some td \<Rightarrow> Some (dataCopy k td now)))"
    "flushQueue hs' = flushQueue hs"
    "repository hs' = (if r = None then repository hs @ metrics else repository hs)"
    "(r, tr, hs') = writeToDatabase env nowDB metrics (hs\<lparr>cache := cache hs'\<rparr>)"
    by simp_all
  have first: "r = None"
    if "1 \<le> MaxRetries (config hs) \<and> \<not> ctxDoneBefore (env 1) \<and> storeResult (env 1) = None"
  proof -
    from that have "fst (writeToDatabase env nowDB metrics (hs\<lparr>cache := cache hs'\<rparr>)) = None"
      by (intro writeToDatabase_first_try ne) simp_all
    with eff(4) [symmetric] show ?thesis by simp
  qed
  show "case HybridStore_StoreMetricsBulk env now nowDB metrics hs of (r, tr, hs') \<Rightarrow>
        (\<forall>k. data (cache hs') k =
           (if k = [] then data (cache hs) k
            else (case lastFor k metrics of
                    None \<Rightarrow> data (cache hs) k
                  | Some td \<Rightarrow> Some (dataCopy k td now))))
        \<and> flushQueue hs' = flushQueue hs
        \<and> (r, tr, hs') = writeToDatabase env nowDB metrics (hs\<lparr>cache := cache hs'\<rparr>)
        \<and> repository hs' = (if r = None then repository hs @ metrics else repository hs)
        \<and> (1 \<le> MaxRetries (config hs) \<and> \<not> ctxDoneBefore (env 1) \<and> storeResult (env 1) = None
             \<longrightarrow> r = None)"
    unfolding res prod.case using eff first by blast
qed

lemma bulk_rec1:
  "HybridStore_StoreMetricsBulk envOK 7 8 [rec1\<lparr>LatencyMs := 2\<rparr>, rec1] store0 =
     (None, [StoreCall 1],
      store0\<lparr>cache := NewInMemoryCache\<lparr>data := [''sw-01'' \<mapsto> rec1],
                                         lastUpdated := [''sw-01'' \<mapsto> 7]\<rparr>,
             repository := [rec1\<lparr>LatencyMs := 2\<rparr>, rec1],
             totalDBWrites := 2, pendingFlushItems := - 2, lastFlushTime := 8\<rparr>)"
  by (simp add: HybridStore_StoreMetricsBulk_def InMemoryCache_UpdateBatch_def
      UpdateBatch_step_def dataCopy_def IsZero_def writeToDatabase_def writeAttempts_stored
      envOK_def store0_def NewHybridStore_def DefaultHybridStoreConfig_def rec1_def
      NewInMemoryCache_def Let_def)

text \<open>
  C2 as stated fails: after \<^verbatim>\<open>StoreMetricsBulk\<close> of a batch of two records the flush queue
  is still empty, and the repository holds the two rows already.
\<close>

theorem C2_StoreMetricsBulk_enqueues_counterexample:
  "flushQueue (snd (snd (HybridStore_StoreMetricsBulk envOK 7 8
      [rec1\<lparr>LatencyMs := 2\<rparr>, rec1] store0))) = []
   \<and> repository (snd (snd (HybridStore_StoreMetricsBulk envOK 7 8
      [rec1\<lparr>LatencyMs := 2\<rparr>, rec1] store0))) = [rec1\<lparr>LatencyMs := 2\<rparr>, rec1]"
  by (simp add: bulk_rec1) (simp add: store0_def NewHybridStore_def)

theorem C2_StoreMetricsBulk_writes_through_witness:
  "[rec1\<lparr>LatencyMs := 2\<rparr>, rec1] \<noteq> []
   \<and> 1 \<le> MaxRetries (config store0) \<and> \<not> ctxDoneBefore (envOK 1) \<and> storeResult (envOK 1) = None
   \<and> fst (HybridStore_StoreMetricsBulk envOK 7 8 [rec1\<lparr>LatencyMs := 2\<rparr>, rec1] store0) = None
   \<and> data (cache (snd (snd (HybridStore_StoreMetricsBulk envOK 7 8
        [rec1\<lparr>LatencyMs := 2\<rparr>, rec1] store0)))) ''sw-01'' = Some rec1
   \<and> repository (snd (snd (HybridStore_StoreMetricsBulk envOK 7 8
        [rec1\<lparr>LatencyMs := 2\<rparr>, rec1] store0))) = [rec1\<lparr>LatencyMs := 2\<rparr>, rec1]"
proof -
  let ?batch = "[rec1\<lparr>LatencyMs := 2\<rparr>, rec1]"
  obtain r tr hs' where res: "HybridStore_StoreMetricsBulk envOK 7 8 ?batch store0 = (r, tr, hs')"
    by (cases "HybridStore_StoreMetricsBulk envOK 7 8 ?batch store0")
  have pre: "1 \<le> MaxRetries (config store0) \<and> \<not> ctxDoneBefore (envOK 1)
      \<and> storeResult (envOK 1) = None"
    by (simp add: store0_def NewHybridStore_def DefaultHybridStoreConfig_def envOK_def)
  have last: "lastFor ''sw-01'' ?batch = Some rec1"
    by (simp add: lastFor_def rec1_def)
  have copy: "dataCopy ''sw-01'' rec1 7 = rec1"
    by (simp add: dataCopy_def rec1_def IsZero_def)
  from C2_StoreMetricsBulk_writes_through [where metrics = ?batch and env = envOK and now = 7
      and nowDB = 8 and hs = store0] res pre
  have "r = None" "data (cache hs') ''sw-01'' = Some rec1" "repository hs' = ?batch"
    by (simp_all add: last copy store0_def NewHybridStore_def)
  with pre show ?thesis by (simp add: res)
qed

section \<open>IngestBatch\<close>







section \<open>The retry policy of writeToDatabase\<close>







section \<open>A full flush queue\<close>




section \<open>Lifecycle of the hybrid store\<close>

lemma lifecycle_inv_apply: "lifecycle_inv hs \<Longrightarrow> lifecycle_inv (lifecycle_apply x hs)"
  by (cases x)
    (auto simp: lifecycle_inv_def HybridStore_Start_def HybridStore_Stop_def workersExit_def
      Let_def)

lemma lifecycle_inv_fold:
  "lifecycle_inv hs \<Longrightarrow> lifecycle_inv (fold lifecycle_apply ops hs)"
  by (induction ops arbitrary: hs) (simp_all add: lifecycle_inv_apply)

lemma lifecycle_inv_New: "lifecycle_inv (NewHybridStore c repo cfg t0)"
  by (simp add: lifecycle_inv_def NewHybridStore_def)

lemma lifecycle_forward:
  "lifecycle_rank (lifecycle_of hs) \<le> lifecycle_rank (lifecycle_of (lifecycle_apply x hs))"
proof (cases x)
  case (OpStart parent now)
  then show ?thesis
    by (cases parent)
      (auto simp: lifecycle_of_def HybridStore_Start_def split: option.splits ctx_state.splits)
next
  case (OpStop workersFirst)
  then show ?thesis
    by (auto simp: lifecycle_of_def HybridStore_Stop_def workersExit_def Let_def
        split: option.splits ctx_state.splits)
next
  case OpWorkersExit
  then show ?thesis
    by (auto simp: lifecycle_of_def workersExit_def split: option.splits ctx_state.splits)
qed

lemma Start_created:
  "lifecycle_of hs = Created \<Longrightarrow>
     fst (HybridStore_Start CtxLive now hs) = None
     \<and> lifecycle_of (snd (HybridStore_Start CtxLive now hs)) = Started"
  by (auto simp: lifecycle_of_def HybridStore_Start_def split: option.splits ctx_state.splits
      if_splits)

lemma Start_again:
  "lifecycle_of hs \<noteq> Created \<Longrightarrow> HybridStore_Start parent now hs = (Some AlreadyStarted, hs)"
  by (auto simp: lifecycle_of_def HybridStore_Start_def split: option.splits)

lemma Stop_after_start:
  assumes "lifecycle_inv hs" and "lifecycle_of hs \<noteq> Created"
  shows "fst (HybridStore_Stop True hs) = None"
    and "lifecycle_of (snd (HybridStore_Stop True hs)) = Stopped"
    and "HybridStore_Stop True (snd (HybridStore_Stop True hs)) =
           (None, snd (HybridStore_Stop True hs))"
    and "fst (HybridStore_Stop False hs) = Some CtxErr"
    and "lifecycle_of (snd (HybridStore_Stop False hs)) = Stopping
         \<or> lifecycle_of (snd (HybridStore_Stop False hs)) = Stopped"
proof -
  from assms have c: "cancel hs"
    by (auto simp: lifecycle_inv_def lifecycle_of_def split: option.splits)
  then show "fst (HybridStore_Stop True hs) = None"
    and "lifecycle_of (snd (HybridStore_Stop True hs)) = Stopped"
    and "HybridStore_Stop True (snd (HybridStore_Stop True hs)) =
           (None, snd (HybridStore_Stop True hs))"
    and "fst (HybridStore_Stop False hs) = Some CtxErr"
    and "lifecycle_of (snd (HybridStore_Stop False hs)) = Stopping
         \<or> lifecycle_of (snd (HybridStore_Stop False hs)) = Stopped"
    by (simp_all add: HybridStore_Stop_def workersExit_def lifecycle_of_def Let_def)
qed

text \<open>
  C8. The state of the store's lifecycle is read off \<^verbatim>\<open>hs.ctx\<close> and the worker count:
  created while \<^verbatim>\<open>hs.ctx\<close> is nil, started while it is live, stopping once it is done and
  workers remain, stopped when none remains. For every store reached from a new one by
  \<^verbatim>\<open>Start\<close> and \<^verbatim>\<open>Stop\<close> calls and worker exits: a new store is created, and \<^verbatim>\<open>Stop\<close> on it
  is refused; no step moves the state backwards; \<^verbatim>\<open>Start\<close> (with a live context) moves a
  created store to started; in every later state \<^verbatim>\<open>Start\<close> returns the already-started
  error and changes nothing, and \<^verbatim>\<open>Stop\<close> cancels the context: when the workers return
  before the caller's context is done it returns nil and the store is stopped, and a
  repeated \<^verbatim>\<open>Stop\<close> returns nil again and changes nothing; when the caller's context is
  done first it returns that context's error with the store stopping (or stopped).
\<close>

theorem C8_lifecycle:
  "(let hs0 = NewHybridStore c repo cfg t0;
        hs = fold lifecycle_apply ops hs0
    in lifecycle_of hs0 = Created
       \<and> HybridStore_Stop workersFirst hs0 = (Some NotStarted, hs0)
       \<and> lifecycle_rank (lifecycle_of hs) \<le> lifecycle_rank (lifecycle_of (lifecycle_apply x hs))
       \<and> (lifecycle_of hs = Created \<longrightarrow>
            fst (HybridStore_Start CtxLive now hs) = None
            \<and> lifecycle_of (snd (HybridStore_Start CtxLive now hs)) = Started)
       \<and> (lifecycle_of hs \<noteq> Created \<longrightarrow>
            HybridStore_Start parent now hs = (Some AlreadyStarted, hs)
            \<and> fst (HybridStore_Stop True hs) = None
            \<and> lifecycle_of (snd (HybridStore_Stop True hs)) = Stopped
            \<and> HybridStore_Stop True (snd (HybridStore_Stop True hs)) =
                 (None, snd (HybridStore_Stop True hs))
            \<and> fst (HybridStore_Stop False hs) = Some CtxErr
            \<and> (lifecycle_of (snd (HybridStore_Stop False hs)) = Stopping
               \<or> lifecycle_of (snd (HybridStore_Stop False hs)) = Stopped)))"
proof -
  let ?new = "NewHybridStore c repo cfg t0"
  let ?cur = "fold lifecycle_apply ops ?new"
  have inv: "lifecycle_inv ?cur"
    by (rule lifecycle_inv_fold [OF lifecycle_inv_New])
  have new: "lifecycle_of ?new = Created"
    "HybridStore_Stop workersFirst ?new = (Some NotStarted, ?new)"
    by (simp_all add: lifecycle_of_def NewHybridStore_def HybridStore_Stop_def)
  show ?thesis
    unfolding Let_def
    using new lifecycle_forward [of ?cur x] Start_created [of ?cur now]
      Start_again [of ?cur parent now] Stop_after_start [OF inv]
    by blast
qed

theorem C8_lifecycle_witness:
  "lifecycle_of store0 = Created
   \<and> HybridStore_Start CtxLive 5 store0 = (None, startedStore)
   \<and> lifecycle_of startedStore = Started
   \<and> lifecycle_of startedStore \<noteq> Created
   \<and> HybridStore_Start CtxLive 6 startedStore = (Some AlreadyStarted, startedStore)
   \<and> fst (HybridStore_Stop True startedStore) = None
   \<and> lifecycle_of (snd (HybridStore_Stop True startedStore)) = Stopped
   \<and> fst (HybridStore_Stop True (snd (HybridStore_Stop True startedStore))) = None
   \<and> lifecycle_of (snd (HybridStore_Stop False startedStore)) = Stopping"
proof -
  have run0: "fold lifecycle_apply [] store0 = store0"
    by simp
  have run1: "fold lifecycle_apply [OpStart CtxLive 5] store0 = startedStore"
    and start: "HybridStore_Start CtxLive 5 store0 = (None, startedStore)"
    by (simp_all add: HybridStore_Start_def startedStore_def store0_def NewHybridStore_def)
  have created: "lifecycle_of store0 = Created" and started: "lifecycle_of startedStore \<noteq> Created"
    and stopping: "lifecycle_of (snd (HybridStore_Stop False startedStore)) = Stopping"
    by (simp_all add: lifecycle_of_def startedStore_def store0_def NewHybridStore_def
        HybridStore_Stop_def)
  note at_new = C8_lifecycle [where c = NewInMemoryCache and repo = "[]"
      and cfg = DefaultHybridStoreConfig and ?t0.0 = 63871286400000000000 and ops = "[]"
      and now = 5 and parent = CtxLive and workersFirst = True and x = OpWorkersExit,
      unfolded Let_def, folded store0_def, unfolded run0]
  note at_started = C8_lifecycle [where c = NewInMemoryCache and repo = "[]"
      and cfg = DefaultHybridStoreConfig and ?t0.0 = 63871286400000000000
      and ops = "[OpStart CtxLive 5]" and now = 6 and parent = CtxLive and workersFirst = True
      and x = OpWorkersExit, unfolded Let_def, folded store0_def, unfolded run1]
  from at_new created have "lifecycle_of (snd (HybridStore_Start CtxLive 5 store0)) = Started"
    by blast
  then have a: "lifecycle_of startedStore = Started"
    by (simp add: start)
  from at_started started
  have b: "HybridStore_Start CtxLive 6 startedStore = (Some AlreadyStarted, startedStore)"
    "fst (HybridStore_Stop True startedStore) = None"
    "lifecycle_of (snd (HybridStore_Stop True startedStore)) = Stopped"
    "HybridStore_Stop True (snd (HybridStore_Stop True startedStore)) =
       (None, snd (HybridStore_Stop True startedStore))"
    by blast+
  from a b created started stopping start show ?thesis
    by simp
qed

section \<open>Health\<close>




section \<open>Validation on ingest\<close>

text \<open>
  C1 says that \<^verbatim>\<open>IngestMetrics\<close> returns a validation error, and writes nothing to the
  cache, for a record with a negative bandwidth, latency or packet error count, a
  utilization outside 0..100 or a temperature outside -50..150. The code at such records:
  \<^verbatim>\<open>IngestMetrics\<close> never calls \<^verbatim>\<open>ValidateMetricData\<close>; a record with bandwidth -1, which
  \<^verbatim>\<open>ValidateMetricData\<close> would refuse, and one with utilization 150 are accepted and
  stored in the cache, and \<^verbatim>\<open>ValidateMetricData\<close> itself lets a temperature of 200 pass.
\<close>

theorem C1_IngestMetrics_stores_invalid_record:
  "ValidateMetricData (rec1\<lparr>BandwidthMbps := - 1\<rparr>) = Some BandwidthNegative
   \<and> fst (telemetryService_IngestMetrics (rec1\<lparr>BandwidthMbps := - 1\<rparr>) 7 8 store0) = None
   \<and> data (cache (snd (telemetryService_IngestMetrics (rec1\<lparr>BandwidthMbps := - 1\<rparr>) 7 8 store0)))
         ''sw-01'' = Some (rec1\<lparr>BandwidthMbps := - 1\<rparr>)
   \<and> fst (telemetryService_IngestMetrics (rec1\<lparr>UtilizationPct := 150\<rparr>) 7 8 store0) = None
   \<and> data (cache (snd (telemetryService_IngestMetrics (rec1\<lparr>UtilizationPct := 150\<rparr>) 7 8 store0)))
         ''sw-01'' = Some (rec1\<lparr>UtilizationPct := 150\<rparr>)
   \<and> ValidateMetricData (rec1\<lparr>TemperatureC := 200\<rparr>) = None"
  by (simp add: ValidateMetricData_def telemetryService_IngestMetrics_def
      HybridStore_UpdateMetrics_def InMemoryCache_UpdateMetrics_def incrementRequestCount_def
      dataCopy_def IsZero_def Let_def rec1_def store0_def NewHybridStore_def
      NewInMemoryCache_def flushQueueCap_def)

section \<open>Deduplication in the ingestion client\<close>


end
